theory Spec2Isabelle
  imports Complex_Main
begin

section \<open>The batch drift-monitoring job (src/api/monitoring\_job.py)\<close>

text \<open>
  The job is a straight-line script over four external parties: the clock, the file
  system holding the reference dataset, the database (the table \<open>prediction_logs\<close>
  that is read, the table \<open>monitoring_metrics\<close> that is written through a session)
  and the Slack webhook. They are gathered in one record, \<open>world\<close>, which every
  function takes and returns. A Python exception is the left summand of the result;
  the world travels with it, since a handler goes on from the state the failing call
  left behind.
\<close>

subsection \<open>Values\<close>

text \<open>
  A \<open>datetime\<close> is the number of microseconds since 0001-01-01 00:00:00, the
  resolution of Python's type. Python's values end with the year 9999
  (\<open>date.max.toordinal() = 3652059\<close>); arithmetic that leaves the range raises
  \<open>OverflowError\<close>.
\<close>

type_synonym datetime = int

definition DATETIME_RANGE_US :: int where
  "DATETIME_RANGE_US = 3652059 * 86400 * 1000000"

text \<open>
  The exceptions that occur. All of them derive from Python's \<open>Exception\<close>, so a
  handler \<open>except Exception\<close> catches each of them.
\<close>

datatype py_error =
    OperationalError
  | OverflowError
  | IndexError
  | TypeError
  | RequestException
  | OtherException string

text \<open>
  \<open>end_time - timedelta(hours=lookback_hours)\<close>. The subtraction succeeds exactly when
  the result is a datetime again (a \<open>timedelta\<close> too large to build would leave the
  range of datetimes as well).
\<close>

definition datetime_sub_hours :: "datetime \<Rightarrow> int \<Rightarrow> py_error + datetime" where
  "datetime_sub_hours t hours =
     (let t' = t - hours * 3600000000
      in if 0 \<le> t' \<and> t' < DATETIME_RANGE_US then Inr t' else Inl OverflowError)"

text \<open>Cells of a data frame; \<open>NA\<close> is the missing value.\<close>

datatype cell = NA | FloatV real | IntV int | TimeV datetime

text \<open>
  A pandas \<open>DataFrame\<close>: the column labels in order and the rows, each a map from
  label to cell. \<open>df.empty\<close> holds when either axis has length 0, and \<open>pd.DataFrame()\<close>
  has neither columns nor rows.
\<close>

record dataframe =
  columns :: "string list"
  rows :: "(string \<rightharpoonup> cell) list"

definition DataFrame :: dataframe where
  "DataFrame = \<lparr>columns = [], rows = []\<rparr>"

definition df_empty :: "dataframe \<Rightarrow> bool" where
  "df_empty df \<longleftrightarrow> columns df = [] \<or> rows df = []"

text \<open>
  A row of the table \<open>prediction_logs\<close>, with the columns the job selects. The columns
  are nullable in the schema (src/dashboard/app.py, class \<open>PredictionLog\<close>).
\<close>

record prediction_log =
  feature_1 :: "real option"
  feature_2 :: "real option"
  prediction :: "int option"
  target :: "int option"
  prediction_time :: "datetime option"

definition float_cell :: "real option \<Rightarrow> cell" where
  "float_cell v = (case v of None \<Rightarrow> NA | Some x \<Rightarrow> FloatV x)"

definition int_cell :: "int option \<Rightarrow> cell" where
  "int_cell v = (case v of None \<Rightarrow> NA | Some x \<Rightarrow> IntV x)"

definition time_cell :: "datetime option \<Rightarrow> cell" where
  "time_cell v = (case v of None \<Rightarrow> NA | Some x \<Rightarrow> TimeV x)"

definition select_columns :: "string list" where
  "select_columns = [''feature_1'', ''feature_2'', ''prediction'', ''target'', ''prediction_time'']"

definition row_of_log :: "prediction_log \<Rightarrow> (string \<rightharpoonup> cell)" where
  "row_of_log r =
     [''feature_1'' \<mapsto> float_cell (feature_1 r),
      ''feature_2'' \<mapsto> float_cell (feature_2 r),
      ''prediction'' \<mapsto> int_cell (prediction r),
      ''target'' \<mapsto> int_cell (target r),
      ''prediction_time'' \<mapsto> time_cell (prediction_time r)]"

text \<open>
  SQL's \<open>prediction_time BETWEEN :start_time AND :end_time\<close>: both bounds belong to
  the range, and a NULL timestamp satisfies no comparison.
\<close>

definition sql_between :: "datetime \<Rightarrow> datetime \<Rightarrow> prediction_log \<Rightarrow> bool" where
  "sql_between start_time end_time r =
     (case prediction_time r of
        None \<Rightarrow> False
      | Some t \<Rightarrow> start_time \<le> t \<and> t \<le> end_time)"

text \<open>
  Evidently's \<open>ColumnMapping\<close>, with the three attributes the job sets. A fresh mapping
  names no features and takes the columns "target" and "prediction" for the label
  and the model's output.
\<close>

record column_mapping =
  numerical_features :: "string list option"
  mapping_prediction :: "string option"
  mapping_target :: "string option"

definition ColumnMapping :: column_mapping where
  "ColumnMapping =
     \<lparr>numerical_features = None,
      mapping_prediction = Some ''prediction'',
      mapping_target = Some ''target''\<rparr>"

text \<open>
  The report as a dictionary. \<open>report_dict['metrics'][i]['result']\<close> is entry \<open>i\<close> of
  the list below; its values are the scalars of Evidently's JSON output.
\<close>

datatype pyval = PNone | PBool bool | PInt int | PFloat real

type_synonym result_dict = "string \<rightharpoonup> pyval"

type_synonym report_dict = "result_dict list"

definition metric_result :: "report_dict \<Rightarrow> nat \<Rightarrow> py_error + result_dict" where
  "metric_result report_dict i =
     (if i < length report_dict then Inr (report_dict ! i) else Inl IndexError)"

definition dict_get :: "result_dict \<Rightarrow> string \<Rightarrow> pyval \<Rightarrow> pyval" where
  "dict_get d k dflt = (case d k of None \<Rightarrow> dflt | Some v \<Rightarrow> v)"

fun py_bool :: "pyval \<Rightarrow> bool" where
  "py_bool PNone = False"
| "py_bool (PBool b) = b"
| "py_bool (PInt n) = (n \<noteq> 0)"
| "py_bool (PFloat x) = (x \<noteq> 0)"

text \<open>
  \<open>int(x)\<close>: a float is truncated towards zero, \<open>None\<close> is a \<open>TypeError\<close>. Floats are
  the finite ones, taken as reals; NaN and the infinities are not represented.
\<close>

fun py_int :: "pyval \<Rightarrow> py_error + int" where
  "py_int PNone = Inl TypeError"
| "py_int (PBool b) = Inr (if b then 1 else 0)"
| "py_int (PInt n) = Inr n"
| "py_int (PFloat x) = Inr (if 0 \<le> x then \<lfloor>x\<rfloor> else \<lceil>x\<rceil>)"

text \<open>
  A row of the table \<open>monitoring_metrics\<close> (the constructor calls of
  \<open>process_and_log_metrics\<close>; the id is assigned by the store). The summary row's
  \<open>report_summary\<close> is the JSON text of \<open>{"rows_checked": .., "drifted_features": ..}\<close>,
  kept here as the pair of the two numbers; the count row has \<open>None\<close>.
\<close>

record monitoring_metric =
  timestamp :: datetime
  data_drift_score :: real
  num_drifted_features :: int
  metric_name :: string
  metric_value :: real
  report_summary :: "(int \<times> int) option"
  model_version :: string
  batch_start_time :: datetime
  batch_end_time :: datetime

text \<open>
  The alert: the four values the message text is formatted from, and the JSON payload
  posted to the webhook.
\<close>

record alert_message =
  drifted_features :: int
  drift_score :: real
  window_start :: datetime
  window_end :: datetime

record payload =
  username :: string
  icon_emoji :: string
  message :: alert_message

record response =
  status_code :: int
  body :: string

text \<open>\<open>response.ok\<close> of the requests library: the status is below 400.\<close>

definition response_ok :: "response \<Rightarrow> bool" where
  "response_ok r \<longleftrightarrow> status_code r < 400"

text \<open>The lines the job prints, one constructor for each \<open>print\<close> of the source.\<close>

datatype log_line =
    Starting_Job
  | Reference_Not_Found string
  | Reference_Loaded nat
  | Fetching datetime datetime
  | Fetched nat
  | Database_Operational_Error py_error
  | Unexpected_Error py_error
  | No_New_Data
  | Generating_Report
  | Report_Generated
  | Drift_Summary real int
  | Logged_Metrics
  | Commit_Failed py_error
  | Slack_Not_Configured
  | Slack_Sent
  | Slack_Failed int string
  | Slack_Error py_error
  | Job_Finished

subsection \<open>Configuration and world\<close>

text \<open>
  The module-level constants, read from the environment once at start.
  \<open>DRIFT_THRESHOLD\<close> is a float in the source, compared with an integer; Python compares
  the two values exactly, as the reals do.
\<close>

record config =
  REFERENCE_DATA_PATH :: string
  MODEL_VERSION :: string
  BATCH_HOURS :: int
  SLACK_WEBHOOK_URL :: string
  DRIFT_THRESHOLD :: real

text \<open>The defaults of the source.\<close>

definition default_config :: config where
  "default_config =
     \<lparr>REFERENCE_DATA_PATH = ''/data/reference_data.csv'',
      MODEL_VERSION = ''v1.0'',
      BATCH_HOURS = 24,
      SLACK_WEBHOOK_URL = [],
      DRIFT_THRESHOLD = 0\<rparr>"

text \<open>
  \<^item> \<open>clock\<close>, \<open>ticks\<close>: the successive values of \<open>datetime.now()\<close> and how many were read;
  \<^item> \<open>files\<close>: the paths that exist, each with what \<open>pd.read_csv\<close> makes of it;
  \<^item> \<open>prediction_logs\<close>, \<open>read_fault\<close>: the table read by \<open>pd.read_sql\<close>, and the
    exception the read raises, if any;
  \<^item> \<open>evidently\<close>: what \<open>Report.run\<close> followed by \<open>as_dict\<close> yields for the two frames
    and the mapping (the library is not part of the repository);
  \<^item> \<open>monitoring_metrics\<close>: the committed rows; \<open>pending\<close>: the rows added to the
    session and not yet committed; \<open>commit_fault\<close>: the exception the commit raises,
    if any; \<open>session_open\<close>: between \<open>SessionLocal()\<close> and \<open>db.close()\<close>;
  \<^item> \<open>webhook\<close>: what \<open>requests.post\<close> yields for a URL and a payload;
    \<open>http_posts\<close>: the requests issued so far;
  \<^item> \<open>stdout\<close>: the lines printed so far.
\<close>

record world =
  clock :: "nat \<Rightarrow> datetime"
  ticks :: nat
  files :: "string \<rightharpoonup> (py_error + dataframe)"
  prediction_logs :: "prediction_log list"
  read_fault :: "py_error option"
  evidently :: "dataframe \<Rightarrow> dataframe \<Rightarrow> column_mapping \<Rightarrow> py_error + report_dict"
  monitoring_metrics :: "monitoring_metric list"
  pending :: "monitoring_metric list"
  commit_fault :: "py_error option"
  session_open :: bool
  webhook :: "string \<Rightarrow> payload \<Rightarrow> py_error + response"
  http_posts :: "(string \<times> payload) list"
  stdout :: "log_line list"

definition py_print :: "log_line \<Rightarrow> world \<Rightarrow> world" where
  "py_print l w = w\<lparr>stdout := stdout w @ [l]\<rparr>"

definition datetime_now :: "world \<Rightarrow> datetime \<times> world" where
  "datetime_now w = (clock w (ticks w), w\<lparr>ticks := Suc (ticks w)\<rparr>)"

subsection \<open>Window Fetcher: \<open>fetch_data_from_db\<close>\<close>

text \<open>
  \<open>pd.read_sql\<close> of the query: the selected columns of the rows whose
  \<open>prediction_time\<close> is between the bounds, or the exception of the read.
\<close>

definition read_sql :: "datetime \<Rightarrow> datetime \<Rightarrow> world \<Rightarrow> py_error + dataframe" where
  "read_sql start_time end_time w =
     (case read_fault w of
        Some err \<Rightarrow> Inl err
      | None \<Rightarrow>
          Inr \<lparr>columns = select_columns,
               rows = map row_of_log
                        (filter (sql_between start_time end_time) (prediction_logs w))\<rparr>)"

text \<open>
  The two bounds are computed before the \<open>try\<close>; the read is inside it, with one
  handler for \<open>OperationalError\<close> and one for every other \<open>Exception\<close>. Both handlers
  return an empty frame with the bounds. (The session argument \<open>db\<close> of the source is
  never used: the read goes through the engine.)
\<close>

definition fetch_data_from_db ::
  "int \<Rightarrow> world \<Rightarrow> (py_error + dataframe \<times> datetime \<times> datetime) \<times> world" where
  "fetch_data_from_db lookback_hours w =
     (let (end_time, w1) = datetime_now w
      in case datetime_sub_hours end_time lookback_hours of
           Inl err \<Rightarrow> (Inl err, w1)
         | Inr start_time \<Rightarrow>
             (let w2 = py_print (Fetching start_time end_time) w1
              in case read_sql start_time end_time w2 of
                   Inr df \<Rightarrow>
                     (Inr (df, start_time, end_time), py_print (Fetched (length (rows df))) w2)
                 | Inl err \<Rightarrow>
                     if err = OperationalError
                     then (Inr (DataFrame, start_time, end_time),
                           py_print (Database_Operational_Error err) w2)
                     else (Inr (DataFrame, start_time, end_time),
                           py_print (Unexpected_Error err) w2)))"

subsection \<open>Drift Detector: \<open>run_evidently_report\<close>\<close>

definition required_features :: "string list" where
  "required_features = [''feature_1'', ''feature_2'']"

text \<open>\<open>if column_name not in df.columns: df[column_name] = pd.NA\<close>\<close>

definition ensure_column :: "string \<Rightarrow> dataframe \<Rightarrow> dataframe" where
  "ensure_column column_name df =
     (if column_name \<in> set (columns df) then df
      else df\<lparr>columns := columns df @ [column_name],
              rows := map (\<lambda>r. r(column_name \<mapsto> NA)) (rows df)\<rparr>)"

text \<open>\<open>if 'prediction' in df.columns: df.drop(columns=['prediction'], inplace=True)\<close>\<close>

definition drop_prediction :: "dataframe \<Rightarrow> dataframe" where
  "drop_prediction df =
     (if ''prediction'' \<in> set (columns df)
      then df\<lparr>columns := removeAll ''prediction'' (columns df),
              rows := map (\<lambda>r. r(''prediction'' := None)) (rows df)\<rparr>
      else df)"

text \<open>
  What the job hands to \<open>report.run\<close>: the two frames after the two loops, and the
  column mapping after its three assignments.
\<close>

definition report_arguments ::
  "dataframe \<Rightarrow> dataframe \<Rightarrow> dataframe \<times> dataframe \<times> column_mapping" where
  "report_arguments reference_data current_data =
     (let (reference1, current1) =
            fold (\<lambda>column_name (r, c). (ensure_column column_name r, ensure_column column_name c))
              required_features (reference_data, current_data);
          reference2 = drop_prediction reference1;
          current2 = drop_prediction current1;
          mapping = ColumnMapping
            \<lparr>numerical_features := Some [''feature_1'', ''feature_2''],
             mapping_prediction := None,
             mapping_target := None\<rparr>
      in (reference2, current2, mapping))"

definition run_evidently_report ::
  "dataframe \<Rightarrow> dataframe \<Rightarrow> world \<Rightarrow> (py_error + report_dict) \<times> world" where
  "run_evidently_report reference_data current_data w =
     (let (reference2, current2, mapping) = report_arguments reference_data current_data;
          w1 = py_print Generating_Report w
      in case evidently w1 reference2 current2 mapping of
           Inl err \<Rightarrow> (Inl err, w1)
         | Inr report_dict \<Rightarrow> (Inr report_dict, py_print Report_Generated w1))"

subsection \<open>Alert Dispatcher: \<open>send_slack_alert\<close>, \<open>check_for_drift_and_alert\<close>\<close>

text \<open>\<open>requests.post(SLACK_WEBHOOK_URL, json=payload, timeout=5)\<close>\<close>

definition requests_post ::
  "string \<Rightarrow> payload \<Rightarrow> world \<Rightarrow> (py_error + response) \<times> world" where
  "requests_post url p w = (webhook w url p, w\<lparr>http_posts := http_posts w @ [(url, p)]\<rparr>)"

definition send_slack_alert ::
  "config \<Rightarrow> alert_message \<Rightarrow> world \<Rightarrow> (py_error + unit) \<times> world" where
  "send_slack_alert cfg msg w =
     (if SLACK_WEBHOOK_URL cfg = []
      then (Inr (), py_print Slack_Not_Configured w)
      else
        (let p = \<lparr>username = ''Vigil Drift Bot'', icon_emoji = '':warning:'', message = msg\<rparr>
         in case requests_post (SLACK_WEBHOOK_URL cfg) p w of
              (Inr r, w1) \<Rightarrow>
                if response_ok r
                then (Inr (), py_print Slack_Sent w1)
                else (Inr (), py_print (Slack_Failed (status_code r) (body r)) w1)
            | (Inl err, w1) \<Rightarrow> (Inr (), py_print (Slack_Error err) w1)))"

definition check_for_drift_and_alert ::
  "config \<Rightarrow> real \<Rightarrow> int \<Rightarrow> datetime \<Rightarrow> datetime \<Rightarrow> world \<Rightarrow> (py_error + unit) \<times> world" where
  "check_for_drift_and_alert cfg score num start_time end_time w =
     (if real_of_int num > DRIFT_THRESHOLD cfg
      then send_slack_alert cfg
             \<lparr>drifted_features = num, drift_score = score,
              window_start = start_time, window_end = end_time\<rparr> w
      else (Inr (), w))"

subsection \<open>Metrics Recorder: \<open>process_and_log_metrics\<close>\<close>

text \<open>
  The session: \<open>add_all\<close> queues rows, \<open>commit\<close> writes the queued rows in one
  transaction or raises and writes none, \<open>rollback\<close> discards the queue. A new
  session has an empty queue, and closing a session discards what is still queued.
  \<open>add_all\<close>, \<open>rollback\<close> and \<open>close\<close> themselves do not raise here.
\<close>

definition db_add_all :: "monitoring_metric list \<Rightarrow> world \<Rightarrow> world" where
  "db_add_all ms w = w\<lparr>pending := pending w @ ms\<rparr>"

definition db_commit :: "world \<Rightarrow> (py_error + unit) \<times> world" where
  "db_commit w =
     (case commit_fault w of
        Some err \<Rightarrow> (Inl err, w)
      | None \<Rightarrow>
          (Inr (), w\<lparr>monitoring_metrics := monitoring_metrics w @ pending w, pending := []\<rparr>))"

definition db_rollback :: "world \<Rightarrow> world" where
  "db_rollback w = w\<lparr>pending := []\<rparr>"

definition SessionLocal :: "world \<Rightarrow> world" where
  "SessionLocal w = w\<lparr>pending := [], session_open := True\<rparr>"

definition db_close :: "world \<Rightarrow> world" where
  "db_close w = w\<lparr>pending := [], session_open := False\<rparr>"

text \<open>
  The first statements of the function: the drift flag, the number of drifted features
  and the row count, read from entries 0 and 1 of the report.
\<close>

definition extract_metrics :: "report_dict \<Rightarrow> py_error + bool \<times> int \<times> int" where
  "extract_metrics report_dict =
     (case metric_result report_dict 0 of
        Inl err \<Rightarrow> Inl err
      | Inr drift_metric \<Rightarrow>
          (let dataset_drift_flag = py_bool (dict_get drift_metric ''dataset_drift'' (PBool False))
           in case py_int (dict_get drift_metric ''number_of_drifted_features'' (PInt 0)) of
                Inl err \<Rightarrow> Inl err
              | Inr num \<Rightarrow>
                  (case metric_result report_dict 1 of
                     Inl err \<Rightarrow> Inl err
                   | Inr quality_metric_section \<Rightarrow>
                       (case py_int (dict_get quality_metric_section ''rows_count'' (PInt 0)) of
                          Inl err \<Rightarrow> Inl err
                        | Inr rows_count \<Rightarrow> Inr (dataset_drift_flag, num, rows_count)))))"

definition drift_log_row ::
  "config \<Rightarrow> datetime \<Rightarrow> real \<Rightarrow> int \<Rightarrow> int \<Rightarrow> datetime \<Rightarrow> datetime \<Rightarrow> monitoring_metric" where
  "drift_log_row cfg now score num rows_count start_time end_time =
     \<lparr>timestamp = now,
      data_drift_score = score,
      num_drifted_features = num,
      metric_name = ''data_drift_summary'',
      metric_value = score,
      report_summary = Some (rows_count, num),
      model_version = MODEL_VERSION cfg,
      batch_start_time = start_time,
      batch_end_time = end_time\<rparr>"

definition count_log_row ::
  "config \<Rightarrow> datetime \<Rightarrow> int \<Rightarrow> datetime \<Rightarrow> datetime \<Rightarrow> monitoring_metric" where
  "count_log_row cfg now rows_count start_time end_time =
     \<lparr>timestamp = now,
      data_drift_score = 0,
      num_drifted_features = 0,
      metric_name = ''prediction_count'',
      metric_value = real_of_int rows_count,
      report_summary = None,
      model_version = MODEL_VERSION cfg,
      batch_start_time = start_time,
      batch_end_time = end_time\<rparr>"

text \<open>
  The \<open>try\<close> around \<open>add_all\<close> and \<open>commit\<close>, with its handler for every \<open>Exception\<close>.
\<close>

definition log_metrics :: "monitoring_metric list \<Rightarrow> world \<Rightarrow> world" where
  "log_metrics ms w =
     (case db_commit (db_add_all ms w) of
        (Inr u, w1) \<Rightarrow> py_print Logged_Metrics w1
      | (Inl err, w1) \<Rightarrow> py_print (Commit_Failed err) (db_rollback w1))"

definition process_and_log_metrics ::
  "config \<Rightarrow> report_dict \<Rightarrow> datetime \<Rightarrow> datetime \<Rightarrow> world \<Rightarrow> (py_error + unit) \<times> world" where
  "process_and_log_metrics cfg report_dict start_time end_time w =
     (case extract_metrics report_dict of
        Inl err \<Rightarrow> (Inl err, w)
      | Inr (dataset_drift_flag, num, rows_count) \<Rightarrow>
          (let score = (if dataset_drift_flag then 1 else 0);
               w1 = py_print (Drift_Summary score num) w;
               (now1, w2) = datetime_now w1;
               drift_log = drift_log_row cfg now1 score num rows_count start_time end_time;
               (now2, w3) = datetime_now w2;
               count_log = count_log_row cfg now2 rows_count start_time end_time;
               w4 = log_metrics [drift_log, count_log] w3
           in check_for_drift_and_alert cfg score num start_time end_time w4))"

subsection \<open>Job Orchestrator: \<open>main_monitoring_job\<close>\<close>

text \<open>The body of the \<open>try\<close>: fetch, skip on an empty frame, report, record.\<close>

definition cycle :: "config \<Rightarrow> dataframe \<Rightarrow> world \<Rightarrow> (py_error + unit) \<times> world" where
  "cycle cfg reference_data w =
     (case fetch_data_from_db (BATCH_HOURS cfg) w of
        (Inl err, w1) \<Rightarrow> (Inl err, w1)
      | (Inr (current_data, start_time, end_time), w1) \<Rightarrow>
          if df_empty current_data
          then (Inr (), py_print No_New_Data w1)
          else
            (case run_evidently_report reference_data current_data w1 of
               (Inl err, w2) \<Rightarrow> (Inl err, w2)
             | (Inr report_data, w2) \<Rightarrow>
                 process_and_log_metrics cfg report_data start_time end_time w2))"

text \<open>
  The whole job. A missing reference file is a \<open>print\<close> and a plain \<open>return\<close>, before
  the session is opened and outside the \<open>try\<close>. The \<open>finally\<close> clause closes the
  session and prints the last line whether the body returned or raised.
\<close>

definition main_monitoring_job :: "config \<Rightarrow> world \<Rightarrow> (py_error + unit) \<times> world" where
  "main_monitoring_job cfg w =
     (let w0 = py_print Starting_Job w
      in case files w0 (REFERENCE_DATA_PATH cfg) of
           None \<Rightarrow> (Inr (), py_print (Reference_Not_Found (REFERENCE_DATA_PATH cfg)) w0)
         | Some (Inl err) \<Rightarrow> (Inl err, w0)
         | Some (Inr reference_data) \<Rightarrow>
             (let w1 = py_print (Reference_Loaded (length (rows reference_data))) w0;
                  w2 = SessionLocal w1;
                  (outcome, w3) = cycle cfg reference_data w2
              in (outcome, py_print Job_Finished (db_close w3))))"

text \<open>
  The process: it ends with status 0 when \<open>main_monitoring_job\<close> returns and with
  status 1 when an exception leaves it.
\<close>

definition exit_status :: "config \<Rightarrow> world \<Rightarrow> nat" where
  "exit_status cfg w = (case fst (main_monitoring_job cfg w) of Inr u \<Rightarrow> 0 | Inl err \<Rightarrow> 1)"

subsection \<open>Notions used in the statements\<close>

text \<open>
  A cycle that is not skipped: the reference file loads, the fetch returns a frame
  that is not empty together with the bounds, and Evidently returns a report for the
  prepared frames. These are the cycles in which \<open>main_monitoring_job\<close> calls
  \<open>process_and_log_metrics\<close>.
\<close>

definition non_skipped ::
  "config \<Rightarrow> world \<Rightarrow> dataframe \<Rightarrow> dataframe \<Rightarrow> datetime \<Rightarrow> datetime \<Rightarrow> report_dict \<Rightarrow> bool" where
  "non_skipped cfg w reference_data current_data start_time end_time report_dict \<longleftrightarrow>
     files w (REFERENCE_DATA_PATH cfg) = Some (Inr reference_data) \<and>
     fst (fetch_data_from_db (BATCH_HOURS cfg) w) = Inr (current_data, start_time, end_time) \<and>
     \<not> df_empty current_data \<and>
     (case report_arguments reference_data current_data of
        (reference2, current2, mapping) \<Rightarrow> evidently w reference2 current2 mapping) = Inr report_dict"

text \<open>The lines that only \<open>send_slack_alert\<close> prints: one for each call of it.\<close>

fun is_alert_line :: "log_line \<Rightarrow> bool" where
  "is_alert_line Slack_Not_Configured = True"
| "is_alert_line Slack_Sent = True"
| "is_alert_line (Slack_Failed code txt) = True"
| "is_alert_line (Slack_Error err) = True"
| "is_alert_line l = False"

definition alert_calls :: "world \<Rightarrow> nat" where
  "alert_calls w = length (filter is_alert_line (stdout w))"

text \<open>
  The window as the specification words it, for comparison with \<open>sql_between\<close>: the
  half-open interval from \<open>start_time\<close> up to, and without, \<open>end_time\<close>.
\<close>

definition spec_half_open :: "datetime \<Rightarrow> datetime \<Rightarrow> prediction_log \<Rightarrow> bool" where
  "spec_half_open start_time end_time r =
     (case prediction_time r of
        None \<Rightarrow> False
      | Some t \<Rightarrow> start_time \<le> t \<and> t < end_time)"

subsection \<open>Concrete worlds\<close>

text \<open>
  A clock that starts on a day of the year 2025 and advances by a microsecond at each
  reading, a reference frame of one row, a production row stamped \<open>t\<close>, a report of
  two metric results, and a world built from a table and a report: the reference
  file is in place, nothing fails, and the webhook answers 200.
\<close>

definition example_clock :: "nat \<Rightarrow> datetime" where
  "example_clock n = 63900000000000000 + int n"

definition example_reference :: dataframe where
  "example_reference =
     \<lparr>columns = [''feature_1'', ''feature_2'', ''target''],
      rows = [[''feature_1'' \<mapsto> FloatV 1, ''feature_2'' \<mapsto> FloatV 2, ''target'' \<mapsto> IntV 0]]\<rparr>"

definition example_log :: "datetime \<Rightarrow> prediction_log" where
  "example_log t =
     \<lparr>feature_1 = Some 1, feature_2 = Some 2, prediction = Some 0, target = None,
      prediction_time = Some t\<rparr>"

definition example_report :: "int \<Rightarrow> int \<Rightarrow> report_dict" where
  "example_report num rows_count =
     [[''dataset_drift'' \<mapsto> PBool True, ''number_of_drifted_features'' \<mapsto> PInt num],
      [''rows_count'' \<mapsto> PInt rows_count]]"

definition example_world :: "prediction_log list \<Rightarrow> report_dict \<Rightarrow> world" where
  "example_world logs report_dict =
     \<lparr>clock = example_clock,
      ticks = 0,
      files = [''/data/reference_data.csv'' \<mapsto> Inr example_reference],
      prediction_logs = logs,
      read_fault = None,
      evidently = (\<lambda>reference2 current2 mapping. Inr report_dict),
      monitoring_metrics = [],
      pending = [],
      commit_fault = None,
      session_open = False,
      webhook = (\<lambda>url p. Inr \<lparr>status_code = 200, body = ''ok''\<rparr>),
      http_posts = [],
      stdout = []\<rparr>"

text \<open>
  The bounds of the 24-hour window read off that clock, the frame fetched from a table
  whose only row is stamped with the end of the window, and a configuration with a
  webhook and a given alert threshold.
\<close>

definition example_end :: datetime where
  "example_end = 63900000000000000"

definition example_start :: datetime where
  "example_start = 63899913600000000"

definition example_window :: dataframe where
  "example_window = \<lparr>columns = select_columns, rows = [row_of_log (example_log example_end)]\<rparr>"

definition alerting_config :: "real \<Rightarrow> config" where
  "alerting_config threshold =
     default_config\<lparr>SLACK_WEBHOOK_URL := ''https://hooks.slack.example/services/T0'',
                    DRIFT_THRESHOLD := threshold\<rparr>"

text \<open>A report whose second metric result has no entry "rows_count".\<close>

definition example_report_without_count :: "int \<Rightarrow> report_dict" where
  "example_report_without_count num =
     [[''dataset_drift'' \<mapsto> PBool True, ''number_of_drifted_features'' \<mapsto> PInt num],
      Map.empty]"

section \<open>Properties\<close>

subsection \<open>What each function leaves alone\<close>

lemma py_print_simps:
  "stdout (py_print l w) = stdout w @ [l]"
  "http_posts (py_print l w) = http_posts w"
  "monitoring_metrics (py_print l w) = monitoring_metrics w"
  "pending (py_print l w) = pending w"
  "commit_fault (py_print l w) = commit_fault w"
  "read_fault (py_print l w) = read_fault w"
  "prediction_logs (py_print l w) = prediction_logs w"
  "webhook (py_print l w) = webhook w"
  "evidently (py_print l w) = evidently w"
  "files (py_print l w) = files w"
  "clock (py_print l w) = clock w"
  "ticks (py_print l w) = ticks w"
  "session_open (py_print l w) = session_open w"
  by (simp_all add: py_print_def)

lemma send_returns: "fst (send_slack_alert cfg msg w) = Inr ()"
  by (simp add: send_slack_alert_def requests_post_def Let_def split: sum.splits prod.splits)

lemma send_posts:
  "http_posts (snd (send_slack_alert cfg msg w)) =
     (if SLACK_WEBHOOK_URL cfg = [] then http_posts w
      else http_posts w @ [(SLACK_WEBHOOK_URL cfg,
             \<lparr>username = ''Vigil Drift Bot'', icon_emoji = '':warning:'', message = msg\<rparr>)])"
  by (simp add: send_slack_alert_def requests_post_def Let_def py_print_simps split: sum.splits prod.splits)

lemma send_frame:
  "monitoring_metrics (snd (send_slack_alert cfg msg w)) = monitoring_metrics w"
  "pending (snd (send_slack_alert cfg msg w)) = pending w"
  by (simp_all add: send_slack_alert_def requests_post_def Let_def py_print_simps split: sum.splits prod.splits)

lemma check_returns: "fst (check_for_drift_and_alert cfg score num s e w) = Inr ()"
  by (simp add: check_for_drift_and_alert_def send_returns)

lemma check_posts:
  "http_posts (snd (check_for_drift_and_alert cfg score num s e w)) =
     (if DRIFT_THRESHOLD cfg < real_of_int num \<and> SLACK_WEBHOOK_URL cfg \<noteq> []
      then http_posts w @ [(SLACK_WEBHOOK_URL cfg,
             \<lparr>username = ''Vigil Drift Bot'', icon_emoji = '':warning:'',
              message = \<lparr>drifted_features = num, drift_score = score,
                         window_start = s, window_end = e\<rparr>\<rparr>)]
      else http_posts w)"
  by (simp add: check_for_drift_and_alert_def send_posts)

lemma check_frame:
  "monitoring_metrics (snd (check_for_drift_and_alert cfg score num s e w)) = monitoring_metrics w"
  "pending (snd (check_for_drift_and_alert cfg score num s e w)) = pending w"
  by (simp_all add: check_for_drift_and_alert_def send_frame)

lemma log_metrics_table:
  "monitoring_metrics (log_metrics ms w) =
     (case commit_fault w of None \<Rightarrow> monitoring_metrics w @ pending w @ ms
      | Some err \<Rightarrow> monitoring_metrics w)"
  by (simp add: log_metrics_def db_commit_def db_add_all_def db_rollback_def py_print_simps
      split: option.splits)

lemma log_metrics_frame:
  "pending (log_metrics ms w) = []"
  "http_posts (log_metrics ms w) = http_posts w"
  "webhook (log_metrics ms w) = webhook w"
  by (simp_all add: log_metrics_def db_commit_def db_add_all_def db_rollback_def py_print_simps
      split: option.splits)

lemma process_returns:
  "extract_metrics report_dict = Inr (flag, num, rows_count) \<Longrightarrow>
   fst (process_and_log_metrics cfg report_dict s e w) = Inr ()"
  by (simp add: process_and_log_metrics_def Let_def check_returns split: prod.splits)

lemma process_table:
  "extract_metrics report_dict = Inr (flag, num, rows_count) \<Longrightarrow>
   monitoring_metrics (snd (process_and_log_metrics cfg report_dict s e w)) =
     (case commit_fault w of
        None \<Rightarrow> monitoring_metrics w @ pending w @
          [drift_log_row cfg (clock w (ticks w)) (if flag then 1 else 0) num rows_count s e,
           count_log_row cfg (clock w (Suc (ticks w))) rows_count s e]
      | Some err \<Rightarrow> monitoring_metrics w)"
  by (simp add: process_and_log_metrics_def Let_def check_frame log_metrics_table
      datetime_now_def py_print_simps split: prod.splits option.splits)

lemma process_posts:
  "extract_metrics report_dict = Inr (flag, num, rows_count) \<Longrightarrow>
   http_posts (snd (process_and_log_metrics cfg report_dict s e w)) =
     (if DRIFT_THRESHOLD cfg < real_of_int num \<and> SLACK_WEBHOOK_URL cfg \<noteq> []
      then http_posts w @ [(SLACK_WEBHOOK_URL cfg,
             \<lparr>username = ''Vigil Drift Bot'', icon_emoji = '':warning:'',
              message = \<lparr>drifted_features = num, drift_score = (if flag then 1 else 0),
                         window_start = s, window_end = e\<rparr>\<rparr>)]
      else http_posts w)"
  by (simp add: process_and_log_metrics_def Let_def check_posts log_metrics_frame
      datetime_now_def py_print_simps split: prod.splits)

lemma fetch_frame:
  "http_posts (snd (fetch_data_from_db h w)) = http_posts w"
  "monitoring_metrics (snd (fetch_data_from_db h w)) = monitoring_metrics w"
  "pending (snd (fetch_data_from_db h w)) = pending w"
  "commit_fault (snd (fetch_data_from_db h w)) = commit_fault w"
  "webhook (snd (fetch_data_from_db h w)) = webhook w"
  "evidently (snd (fetch_data_from_db h w)) = evidently w"
  "clock (snd (fetch_data_from_db h w)) = clock w"
  "ticks (snd (fetch_data_from_db h w)) = Suc (ticks w)"
  by (simp_all add: fetch_data_from_db_def datetime_now_def Let_def py_print_simps split: sum.splits prod.splits)

lemma fetch_fst_cong:
  "clock w' = clock w \<Longrightarrow> ticks w' = ticks w \<Longrightarrow> read_fault w' = read_fault w \<Longrightarrow>
   prediction_logs w' = prediction_logs w \<Longrightarrow>
   fst (fetch_data_from_db h w') = fst (fetch_data_from_db h w)"
  by (simp add: fetch_data_from_db_def datetime_now_def Let_def read_sql_def py_print_simps
      split: sum.splits prod.splits option.splits)

lemma report_frame:
  "http_posts (snd (run_evidently_report r c w)) = http_posts w"
  "monitoring_metrics (snd (run_evidently_report r c w)) = monitoring_metrics w"
  "pending (snd (run_evidently_report r c w)) = pending w"
  "commit_fault (snd (run_evidently_report r c w)) = commit_fault w"
  "webhook (snd (run_evidently_report r c w)) = webhook w"
  "clock (snd (run_evidently_report r c w)) = clock w"
  "ticks (snd (run_evidently_report r c w)) = ticks w"
  by (simp_all add: run_evidently_report_def Let_def py_print_simps split: sum.splits prod.splits)

lemma report_fst:
  "fst (run_evidently_report r c w) =
     (case report_arguments r c of (r2, c2, m) \<Rightarrow> evidently w r2 c2 m)"
  by (simp add: run_evidently_report_def Let_def py_print_simps split: sum.splits prod.splits)

lemma DataFrame_empty: "df_empty DataFrame"
  by (simp add: df_empty_def DataFrame_def)

subsection \<open>Window Fetcher\<close>

text \<open>
  C4, as the code has it. The query's \<open>BETWEEN\<close> takes both bounds in: when the bounds
  are computed and the read succeeds, the fetch returns the selected columns of
  exactly the rows stamped from \<open>start_time\<close> to \<open>end_time\<close> inclusive, where
  \<open>end_time\<close> is the clock's reading and \<open>start_time\<close> lies the lookback before it.
\<close>

theorem fetch_returns_closed_window:
  assumes "datetime_sub_hours (clock w (ticks w)) lookback_hours = Inr start_time"
      and "read_fault w = None"
  shows "start_time = clock w (ticks w) - lookback_hours * 3600000000 \<and>
         fst (fetch_data_from_db lookback_hours w) =
           Inr (\<lparr>columns = select_columns,
                 rows = map row_of_log
                   (filter (\<lambda>r. \<exists>t. prediction_time r = Some t \<and> start_time \<le> t \<and>
                                    t \<le> clock w (ticks w))
                      (prediction_logs w))\<rparr>,
                start_time, clock w (ticks w))"
proof -
  have same: "sql_between a b = (\<lambda>r. \<exists>t. prediction_time r = Some t \<and> a \<le> t \<and> t \<le> b)" for a b
    by (auto simp: sql_between_def fun_eq_iff split: option.splits)
  from assms(1) have "start_time = clock w (ticks w) - lookback_hours * 3600000000"
    by (simp add: datetime_sub_hours_def Let_def split: if_splits)
  with assms show ?thesis
    by (simp add: fetch_data_from_db_def datetime_now_def Let_def read_sql_def same py_print_simps)
qed

text \<open>
  A table of two rows, one stamped \<open>end_time\<close> and one a microsecond before
  \<open>start_time\<close>: the first is returned, the second is not.
\<close>

theorem fetch_returns_closed_window_witness:
  "datetime_sub_hours
     (clock (example_world [example_log 63900000000000000, example_log 63899913599999999] [])
        (ticks (example_world [example_log 63900000000000000, example_log 63899913599999999] [])))
     24 = Inr 63899913600000000 \<and>
   read_fault (example_world [example_log 63900000000000000, example_log 63899913599999999] []) = None \<and>
   fst (fetch_data_from_db 24
          (example_world [example_log 63900000000000000, example_log 63899913599999999] [])) =
     Inr (\<lparr>columns = select_columns, rows = [row_of_log (example_log 63900000000000000)]\<rparr>,
          63899913600000000, 63900000000000000)"
  using fetch_returns_closed_window
    [of "example_world [example_log 63900000000000000, example_log 63899913599999999] []"
        24 63899913600000000]
  by (simp add: example_world_def example_clock_def example_log_def datetime_sub_hours_def
      DATETIME_RANGE_US_def)

text \<open>
  The row stamped \<open>end_time\<close> is in the frame the fetch returns, while the half-open
  interval of the specification selects no row of that table.
\<close>

theorem fetch_includes_end_time_counterexample:
  "fst (fetch_data_from_db 24 (example_world [example_log 63900000000000000] [])) =
     Inr (\<lparr>columns = select_columns, rows = [row_of_log (example_log 63900000000000000)]\<rparr>,
          63899913600000000, 63900000000000000) \<and>
   prediction_time (example_log 63900000000000000) = Some 63900000000000000 \<and>
   filter (spec_half_open 63899913600000000 63900000000000000)
     (prediction_logs (example_world [example_log 63900000000000000] [])) = []"
  by (simp add: fetch_data_from_db_def datetime_now_def Let_def read_sql_def
      example_world_def example_clock_def example_log_def datetime_sub_hours_def
      DATETIME_RANGE_US_def sql_between_def spec_half_open_def py_print_def)

text \<open>
  C5, as the code has it. The two bounds are computed before the \<open>try\<close>. Once they
  are computed, the fetch does not raise: it returns a frame with these bounds, and
  whenever the read raises, an \<open>OperationalError\<close> or anything else, the frame is the
  empty \<open>pd.DataFrame()\<close>.
\<close>

theorem fetch_failure_gives_empty_frame:
  assumes "datetime_sub_hours (clock w (ticks w)) lookback_hours = Inr start_time"
  shows "\<exists>df. fst (fetch_data_from_db lookback_hours w) =
                 Inr (df, start_time, clock w (ticks w)) \<and>
              (read_fault w \<noteq> None \<longrightarrow> df = DataFrame \<and> df_empty df)"
  using assms
  by (simp add: fetch_data_from_db_def datetime_now_def Let_def read_sql_def DataFrame_empty
      py_print_simps split: option.splits)

text \<open>The read fails with an \<open>OperationalError\<close>, and with another exception.\<close>

theorem fetch_failure_gives_empty_frame_witness:
  "datetime_sub_hours
     (clock ((example_world [example_log 63900000000000000] [])\<lparr>read_fault := Some OperationalError\<rparr>)
        (ticks ((example_world [example_log 63900000000000000] [])\<lparr>read_fault := Some OperationalError\<rparr>)))
     24 = Inr 63899913600000000 \<and>
   fst (fetch_data_from_db 24
          ((example_world [example_log 63900000000000000] [])\<lparr>read_fault := Some OperationalError\<rparr>)) =
     Inr (DataFrame, 63899913600000000, 63900000000000000) \<and>
   fst (fetch_data_from_db 24
          ((example_world [example_log 63900000000000000] [])\<lparr>read_fault := Some (OtherException ''boom'')\<rparr>)) =
     Inr (DataFrame, 63899913600000000, 63900000000000000)"
  using fetch_failure_gives_empty_frame
    [of "(example_world [example_log 63900000000000000] [])\<lparr>read_fault := Some OperationalError\<rparr>"
        24 63899913600000000]
    fetch_failure_gives_empty_frame
    [of "(example_world [example_log 63900000000000000] [])\<lparr>read_fault := Some (OtherException ''boom'')\<rparr>"
        24 63899913600000000]
  by (simp add: example_world_def example_clock_def datetime_sub_hours_def DATETIME_RANGE_US_def)

text \<open>
  A lookback of 100 000 000 hours reaches back before the year 1: the subtraction
  raises \<open>OverflowError\<close> ahead of the \<open>try\<close>, the fetch raises it, and so does the
  job, whose process ends with status 1.
\<close>

theorem fetch_raises_on_overflow_counterexample:
  "fst (fetch_data_from_db 100000000 (example_world [] [])) = Inl OverflowError \<and>
   fst (main_monitoring_job (default_config\<lparr>BATCH_HOURS := 100000000\<rparr>) (example_world [] [])) =
     Inl OverflowError \<and>
   exit_status (default_config\<lparr>BATCH_HOURS := 100000000\<rparr>) (example_world [] []) = 1"
  by (simp add: exit_status_def main_monitoring_job_def cycle_def fetch_data_from_db_def
      datetime_now_def Let_def datetime_sub_hours_def DATETIME_RANGE_US_def example_world_def
      example_clock_def default_config_def py_print_def SessionLocal_def db_close_def)

subsection \<open>The calls of the dispatcher, and the job as a whole\<close>

lemma alert_calls_simps:
  "alert_calls (py_print l w) = alert_calls w + (if is_alert_line l then 1 else 0)"
  "alert_calls (w\<lparr>ticks := t\<rparr>) = alert_calls w"
  "alert_calls (w\<lparr>pending := p\<rparr>) = alert_calls w"
  "alert_calls (w\<lparr>monitoring_metrics := m\<rparr>) = alert_calls w"
  "alert_calls (w\<lparr>http_posts := h\<rparr>) = alert_calls w"
  "alert_calls (w\<lparr>session_open := b\<rparr>) = alert_calls w"
  by (simp_all add: alert_calls_def py_print_def)

lemma send_calls: "alert_calls (snd (send_slack_alert cfg msg w)) = Suc (alert_calls w)"
  by (simp add: send_slack_alert_def requests_post_def Let_def alert_calls_simps
      split: sum.splits prod.splits)

lemma check_calls:
  "alert_calls (snd (check_for_drift_and_alert cfg score num s e w)) =
     alert_calls w + (if DRIFT_THRESHOLD cfg < real_of_int num then 1 else 0)"
  by (simp add: check_for_drift_and_alert_def send_calls)

lemma log_metrics_calls: "alert_calls (log_metrics ms w) = alert_calls w"
  by (simp add: log_metrics_def db_commit_def db_add_all_def db_rollback_def alert_calls_simps
      split: option.splits)

lemma process_calls:
  "extract_metrics report_dict = Inr (flag, num, rows_count) \<Longrightarrow>
   alert_calls (snd (process_and_log_metrics cfg report_dict s e w)) =
     alert_calls w + (if DRIFT_THRESHOLD cfg < real_of_int num then 1 else 0)"
  by (simp add: process_and_log_metrics_def Let_def check_calls log_metrics_calls
      datetime_now_def alert_calls_simps split: prod.splits)

lemma process_posts_le:
  "length (http_posts (snd (process_and_log_metrics cfg report_dict s e w)))
     \<le> Suc (length (http_posts w))"
proof (cases "extract_metrics report_dict")
  case (Inl err)
  then show ?thesis by (simp add: process_and_log_metrics_def)
next
  case (Inr t)
  then obtain flag num rows_count where "extract_metrics report_dict = Inr (flag, num, rows_count)"
    by (cases t) auto
  then show ?thesis by (simp add: process_posts)
qed

lemma process_calls_le:
  "alert_calls (snd (process_and_log_metrics cfg report_dict s e w)) \<le> Suc (alert_calls w)"
proof (cases "extract_metrics report_dict")
  case (Inl err)
  then show ?thesis by (simp add: process_and_log_metrics_def)
next
  case (Inr t)
  then obtain flag num rows_count where "extract_metrics report_dict = Inr (flag, num, rows_count)"
    by (cases t) auto
  then show ?thesis by (simp add: process_calls)
qed

lemma fetch_calls: "alert_calls (snd (fetch_data_from_db h w)) = alert_calls w"
  by (simp add: fetch_data_from_db_def datetime_now_def Let_def alert_calls_simps
      split: sum.splits prod.splits)

lemma report_calls: "alert_calls (snd (run_evidently_report r c w)) = alert_calls w"
  by (simp add: run_evidently_report_def Let_def alert_calls_simps split: sum.splits prod.splits)

lemma cycle_posts_le:
  "length (http_posts (snd (cycle cfg reference_data w))) \<le> Suc (length (http_posts w))"
proof -
  obtain r1 w1 where f: "fetch_data_from_db (BATCH_HOURS cfg) w = (r1, w1)"
    by (cases "fetch_data_from_db (BATCH_HOURS cfg) w")
  then have p1: "http_posts w1 = http_posts w"
    using fetch_frame(1)[of "BATCH_HOURS cfg" w] by simp
  show ?thesis
  proof (cases r1)
    case (Inl err)
    with f p1 show ?thesis by (simp add: cycle_def)
  next
    case (Inr t)
    then obtain current_data s e where t: "r1 = Inr (current_data, s, e)"
      by (cases t) auto
    obtain r2 w2 where g: "run_evidently_report reference_data current_data w1 = (r2, w2)"
      by (cases "run_evidently_report reference_data current_data w1")
    then have p2: "http_posts w2 = http_posts w1"
      using report_frame(1)[of reference_data current_data w1] by simp
    show ?thesis
      using f t g p1 p2 process_posts_le[of cfg _ s e w2]
      by (cases r2) (simp_all add: cycle_def py_print_simps)
  qed
qed

lemma cycle_calls_le:
  "alert_calls (snd (cycle cfg reference_data w)) \<le> Suc (alert_calls w)"
proof -
  obtain r1 w1 where f: "fetch_data_from_db (BATCH_HOURS cfg) w = (r1, w1)"
    by (cases "fetch_data_from_db (BATCH_HOURS cfg) w")
  then have p1: "alert_calls w1 = alert_calls w"
    using fetch_calls[of "BATCH_HOURS cfg" w] by simp
  show ?thesis
  proof (cases r1)
    case (Inl err)
    with f p1 show ?thesis by (simp add: cycle_def)
  next
    case (Inr t)
    then obtain current_data s e where t: "r1 = Inr (current_data, s, e)"
      by (cases t) auto
    obtain r2 w2 where g: "run_evidently_report reference_data current_data w1 = (r2, w2)"
      by (cases "run_evidently_report reference_data current_data w1")
    then have p2: "alert_calls w2 = alert_calls w1"
      using report_calls[of reference_data current_data w1] by simp
    show ?thesis
      using f t g p1 p2 process_calls_le[of cfg _ s e w2]
      by (cases r2) (simp_all add: cycle_def alert_calls_simps)
  qed
qed

lemma main_eq:
  "main_monitoring_job cfg w =
     (case files w (REFERENCE_DATA_PATH cfg) of
        None \<Rightarrow> (Inr (), py_print (Reference_Not_Found (REFERENCE_DATA_PATH cfg))
                            (py_print Starting_Job w))
      | Some (Inl err) \<Rightarrow> (Inl err, py_print Starting_Job w)
      | Some (Inr reference_data) \<Rightarrow>
          (fst (cycle cfg reference_data
                  (SessionLocal (py_print (Reference_Loaded (length (rows reference_data)))
                     (py_print Starting_Job w)))),
           py_print Job_Finished (db_close (snd (cycle cfg reference_data
                  (SessionLocal (py_print (Reference_Loaded (length (rows reference_data)))
                     (py_print Starting_Job w))))))))"
  by (simp add: main_monitoring_job_def Let_def py_print_simps split: option.splits sum.splits prod.splits)

lemma session_simps:
  "http_posts (SessionLocal w) = http_posts w"
  "monitoring_metrics (SessionLocal w) = monitoring_metrics w"
  "pending (SessionLocal w) = []"
  "commit_fault (SessionLocal w) = commit_fault w"
  "webhook (SessionLocal w) = webhook w"
  "evidently (SessionLocal w) = evidently w"
  "clock (SessionLocal w) = clock w"
  "ticks (SessionLocal w) = ticks w"
  "read_fault (SessionLocal w) = read_fault w"
  "prediction_logs (SessionLocal w) = prediction_logs w"
  "stdout (SessionLocal w) = stdout w"
  "alert_calls (SessionLocal w) = alert_calls w"
  "http_posts (db_close w) = http_posts w"
  "monitoring_metrics (db_close w) = monitoring_metrics w"
  "stdout (db_close w) = stdout w"
  "alert_calls (db_close w) = alert_calls w"
  by (simp_all add: SessionLocal_def db_close_def alert_calls_def)

lemma main_posts_le:
  "length (http_posts (snd (main_monitoring_job cfg w))) \<le> Suc (length (http_posts w))"
  using cycle_posts_le[of cfg _ "SessionLocal (py_print (Reference_Loaded _) (py_print Starting_Job w))"]
  by (simp add: main_eq py_print_simps session_simps split: option.splits sum.splits)

lemma main_calls_le:
  "alert_calls (snd (main_monitoring_job cfg w)) \<le> Suc (alert_calls w)"
  using cycle_calls_le[of cfg _ "SessionLocal (py_print (Reference_Loaded _) (py_print Starting_Job w))"]
  by (simp add: main_eq alert_calls_simps session_simps split: option.splits sum.splits)

lemma main_non_skipped:
  assumes "non_skipped cfg w reference_data current_data s e report_dict"
  shows "\<exists>W. main_monitoring_job cfg w =
               (fst (process_and_log_metrics cfg report_dict s e W),
                py_print Job_Finished
                  (db_close (snd (process_and_log_metrics cfg report_dict s e W)))) \<and>
             monitoring_metrics W = monitoring_metrics w \<and> pending W = [] \<and>
             commit_fault W = commit_fault w \<and> http_posts W = http_posts w \<and>
             webhook W = webhook w \<and> clock W = clock w \<and> ticks W = Suc (ticks w) \<and>
             alert_calls W = alert_calls w"
proof -
  define w2 where "w2 = SessionLocal (py_print (Reference_Loaded (length (rows reference_data)))
                     (py_print Starting_Job w))"
  define w3 where "w3 = snd (fetch_data_from_db (BATCH_HOURS cfg) w2)"
  define W where "W = snd (run_evidently_report reference_data current_data w3)"
  from assms have ref: "files w (REFERENCE_DATA_PATH cfg) = Some (Inr reference_data)"
    and fetch: "fst (fetch_data_from_db (BATCH_HOURS cfg) w) = Inr (current_data, s, e)"
    and nonempty: "\<not> df_empty current_data"
    and rep: "(case report_arguments reference_data current_data of
        (reference2, current2, mapping) \<Rightarrow> evidently w reference2 current2 mapping) = Inr report_dict"
    by (simp_all add: non_skipped_def)
  have "fst (fetch_data_from_db (BATCH_HOURS cfg) w2) = fst (fetch_data_from_db (BATCH_HOURS cfg) w)"
    by (rule fetch_fst_cong) (simp_all add: w2_def session_simps py_print_simps)
  with fetch have f2: "fetch_data_from_db (BATCH_HOURS cfg) w2 = (Inr (current_data, s, e), w3)"
    by (simp add: w3_def prod_eq_iff)
  have ev: "evidently w3 = evidently w"
    by (simp add: w3_def w2_def fetch_frame session_simps py_print_simps)
  have "fst (run_evidently_report reference_data current_data w3) = Inr report_dict"
    using rep by (simp add: report_fst ev)
  then have r2: "run_evidently_report reference_data current_data w3 = (Inr report_dict, W)"
    by (simp add: W_def prod_eq_iff)
  have c: "cycle cfg reference_data w2 = process_and_log_metrics cfg report_dict s e W"
    using f2 r2 nonempty by (simp add: cycle_def)
  have m: "main_monitoring_job cfg w =
             (fst (process_and_log_metrics cfg report_dict s e W),
              py_print Job_Finished
                (db_close (snd (process_and_log_metrics cfg report_dict s e W))))"
    using ref c by (simp add: main_eq w2_def)
  have "monitoring_metrics W = monitoring_metrics w" "pending W = []"
    "commit_fault W = commit_fault w" "http_posts W = http_posts w"
    "webhook W = webhook w" "clock W = clock w" "ticks W = Suc (ticks w)"
    "alert_calls W = alert_calls w"
    by (simp_all add: W_def w3_def w2_def report_frame fetch_frame session_simps py_print_simps
        report_calls fetch_calls alert_calls_simps)
  with m show ?thesis by blast
qed

lemma example_non_skipped:
  "non_skipped (alerting_config t) (example_world [example_log example_end] report_dict)
     example_reference example_window example_start example_end report_dict"
  by (simp add: non_skipped_def alerting_config_def default_config_def example_world_def
      example_window_def example_start_def example_end_def example_clock_def
      fetch_data_from_db_def datetime_now_def Let_def read_sql_def datetime_sub_hours_def
      DATETIME_RANGE_US_def sql_between_def example_log_def df_empty_def select_columns_def
      py_print_def split: prod.splits)

lemma example_extract:
  "extract_metrics (example_report num rows_count) = Inr (True, num, rows_count)"
  by (simp add: extract_metrics_def example_report_def metric_result_def dict_get_def)

lemma non_skipped_commit_fault:
  "non_skipped cfg (w\<lparr>commit_fault := cf\<rparr>) reference_data current_data s e report_dict =
   non_skipped cfg w reference_data current_data s e report_dict"
proof -
  have "fst (fetch_data_from_db (BATCH_HOURS cfg) (w\<lparr>commit_fault := cf\<rparr>)) =
        fst (fetch_data_from_db (BATCH_HOURS cfg) w)"
    by (rule fetch_fst_cong) simp_all
  then show ?thesis by (simp add: non_skipped_def)
qed

lemma main_table:
  assumes "non_skipped cfg w reference_data current_data s e report_dict"
      and "extract_metrics report_dict = Inr (flag, num, rows_count)"
  shows "monitoring_metrics (snd (main_monitoring_job cfg w)) =
           (case commit_fault w of
              None \<Rightarrow> monitoring_metrics w @
                [drift_log_row cfg (clock w (Suc (ticks w))) (if flag then 1 else 0) num
                   rows_count s e,
                 count_log_row cfg (clock w (Suc (Suc (ticks w)))) rows_count s e]
            | Some err \<Rightarrow> monitoring_metrics w)"
    and "fst (main_monitoring_job cfg w) = Inr ()"
proof -
  from main_non_skipped[OF assms(1)] obtain W where
    m: "main_monitoring_job cfg w =
               (fst (process_and_log_metrics cfg report_dict s e W),
                py_print Job_Finished
                  (db_close (snd (process_and_log_metrics cfg report_dict s e W))))"
    and W: "monitoring_metrics W = monitoring_metrics w" "pending W = []"
      "commit_fault W = commit_fault w" "clock W = clock w" "ticks W = Suc (ticks w)"
    by blast
  show "monitoring_metrics (snd (main_monitoring_job cfg w)) =
           (case commit_fault w of
              None \<Rightarrow> monitoring_metrics w @
                [drift_log_row cfg (clock w (Suc (ticks w))) (if flag then 1 else 0) num
                   rows_count s e,
                 count_log_row cfg (clock w (Suc (Suc (ticks w)))) rows_count s e]
            | Some err \<Rightarrow> monitoring_metrics w)"
    using W by (simp add: m process_table[OF assms(2)] session_simps py_print_simps
        split: option.splits)
  show "fst (main_monitoring_job cfg w) = Inr ()"
    by (simp add: m process_returns[OF assms(2)])
qed

lemma example_non_skipped_faults:
  "non_skipped (alerting_config t)
     ((example_world [example_log example_end] report_dict)\<lparr>commit_fault := cf, webhook := wh\<rparr>)
     example_reference example_window example_start example_end report_dict"
  by (simp add: non_skipped_def alerting_config_def default_config_def example_world_def
      example_window_def example_start_def example_end_def example_clock_def
      fetch_data_from_db_def datetime_now_def Let_def read_sql_def datetime_sub_hours_def
      DATETIME_RANGE_US_def sql_between_def example_log_def df_empty_def select_columns_def
      py_print_def split: prod.splits)

subsection \<open>Metrics Recorder\<close>



lemma extract_rows_count:
  assumes "extract_metrics report_dict = Inr (flag, num, rows_count)"
  shows "\<exists>quality_metric_section.
           metric_result report_dict 1 = Inr quality_metric_section \<and>
           py_int (dict_get quality_metric_section ''rows_count'' (PInt 0)) = Inr rows_count"
  using assms by (auto simp: extract_metrics_def Let_def split: sum.splits)

lemma example_extract_without_count:
  "extract_metrics (example_report_without_count num) = Inr (True, num, 0)"
  by (simp add: extract_metrics_def example_report_without_count_def metric_result_def
      dict_get_def)

text \<open>
  C10, as the code has it. In a cycle that is not skipped and whose commit succeeds,
  the second row written is named "prediction_count" and carries the drift score 0,
  0 drifted features and no summary, whatever the detector found; its value is the
  number that the second metric result of the report holds under "rows_count", or 0
  when it holds none. The flag and the number of drifted features stand on the first
  row, named "data_drift_summary".
\<close>

theorem count_row_carries_no_drift:
  assumes "non_skipped cfg w reference_data current_data s e report_dict"
      and "extract_metrics report_dict = Inr (flag, num, rows_count)"
      and "commit_fault w = None"
  shows "monitoring_metrics (snd (main_monitoring_job cfg w)) =
           monitoring_metrics w @
             [drift_log_row cfg (clock w (Suc (ticks w))) (if flag then 1 else 0) num
                rows_count s e,
              count_log_row cfg (clock w (Suc (Suc (ticks w)))) rows_count s e] \<and>
         metric_name (count_log_row cfg (clock w (Suc (Suc (ticks w)))) rows_count s e) =
           ''prediction_count'' \<and>
         data_drift_score (count_log_row cfg (clock w (Suc (Suc (ticks w)))) rows_count s e) = 0 \<and>
         num_drifted_features (count_log_row cfg (clock w (Suc (Suc (ticks w)))) rows_count s e) = 0 \<and>
         metric_value (count_log_row cfg (clock w (Suc (Suc (ticks w)))) rows_count s e) =
           real_of_int rows_count \<and>
         (\<exists>quality_metric_section.
            metric_result report_dict 1 = Inr quality_metric_section \<and>
            py_int (dict_get quality_metric_section ''rows_count'' (PInt 0)) = Inr rows_count) \<and>
         report_summary (count_log_row cfg (clock w (Suc (Suc (ticks w)))) rows_count s e) = None \<and>
         metric_name (drift_log_row cfg (clock w (Suc (ticks w))) (if flag then 1 else 0) num
                rows_count s e) = ''data_drift_summary'' \<and>
         data_drift_score (drift_log_row cfg (clock w (Suc (ticks w))) (if flag then 1 else 0) num
                rows_count s e) = (if flag then 1 else 0) \<and>
         num_drifted_features (drift_log_row cfg (clock w (Suc (ticks w))) (if flag then 1 else 0)
                num rows_count s e) = num"
proof -
  have table: "monitoring_metrics (snd (main_monitoring_job cfg w)) =
           monitoring_metrics w @
             [drift_log_row cfg (clock w (Suc (ticks w))) (if flag then 1 else 0) num
                rows_count s e,
              count_log_row cfg (clock w (Suc (Suc (ticks w)))) rows_count s e]"
    using assms(3) by (simp add: main_table(1)[OF assms(1,2)])
  from table extract_rows_count[OF assms(2)] show ?thesis
    by (simp add: drift_log_row_def count_log_row_def)
qed

text \<open>A window of one row in which the detector finds drift in two features.\<close>

theorem count_row_carries_no_drift_witness:
  "non_skipped (alerting_config 0) (example_world [example_log example_end] (example_report 2 1))
     example_reference example_window example_start example_end (example_report 2 1) \<and>
   extract_metrics (example_report 2 1) = Inr (True, 2, 1) \<and>
   commit_fault (example_world [example_log example_end] (example_report 2 1)) = None \<and>
   map metric_name
     (monitoring_metrics (snd (main_monitoring_job (alerting_config 0)
        (example_world [example_log example_end] (example_report 2 1))))) =
     [''data_drift_summary'', ''prediction_count''] \<and>
   map data_drift_score
     (monitoring_metrics (snd (main_monitoring_job (alerting_config 0)
        (example_world [example_log example_end] (example_report 2 1))))) = [1, 0] \<and>
   map num_drifted_features
     (monitoring_metrics (snd (main_monitoring_job (alerting_config 0)
        (example_world [example_log example_end] (example_report 2 1))))) = [2, 0] \<and>
   map metric_value
     (monitoring_metrics (snd (main_monitoring_job (alerting_config 0)
        (example_world [example_log example_end] (example_report 2 1))))) = [1, 1]"
proof -
  have h3: "commit_fault (example_world [example_log example_end] (example_report 2 1)) = None"
    by (simp add: example_world_def)
  show ?thesis
    using count_row_carries_no_drift
      [OF example_non_skipped [of 0 "example_report 2 1"] example_extract [of 2 1] h3]
      example_non_skipped [of 0 "example_report 2 1"] example_extract [of 2 1] h3
    by (simp add: example_world_def drift_log_row_def count_log_row_def)
qed

text \<open>
  The window has one row. With a report that says 5, the count row carries 5; with a
  report that has no entry "rows_count", it carries 0.
\<close>

theorem count_row_value_not_window_size_counterexample:
  "length (rows example_window) = 1 \<and>
   non_skipped (alerting_config 0) (example_world [example_log example_end] (example_report 2 5))
     example_reference example_window example_start example_end (example_report 2 5) \<and>
   map metric_name
     (monitoring_metrics (snd (main_monitoring_job (alerting_config 0)
        (example_world [example_log example_end] (example_report 2 5))))) =
     [''data_drift_summary'', ''prediction_count''] \<and>
   map metric_value
     (monitoring_metrics (snd (main_monitoring_job (alerting_config 0)
        (example_world [example_log example_end] (example_report 2 5))))) = [1, 5] \<and>
   non_skipped (alerting_config 0)
     (example_world [example_log example_end] (example_report_without_count 2))
     example_reference example_window example_start example_end (example_report_without_count 2) \<and>
   map metric_value
     (monitoring_metrics (snd (main_monitoring_job (alerting_config 0)
        (example_world [example_log example_end] (example_report_without_count 2))))) = [1, 0]"
  using main_table(1) [OF example_non_skipped [of 0 "example_report 2 5"] example_extract [of 2 5]]
    main_table(1) [OF example_non_skipped [of 0 "example_report_without_count 2"]
      example_extract_without_count [of 2]]
    example_non_skipped [of 0 "example_report 2 5"]
    example_non_skipped [of 0 "example_report_without_count 2"]
  by (simp add: example_world_def example_window_def drift_log_row_def count_log_row_def)

text \<open>
  C6. In a cycle that is not skipped, a commit that raises does not end the job:
  the job returns normally, nothing is written, and the dispatcher is called, and
  the webhook is posted to, exactly as in the same cycle with a commit that succeeds:
  once when the number of drifted features read from the report exceeds the threshold,
  not at all otherwise.
\<close>

theorem persistence_failure_keeps_alert:
  assumes "non_skipped cfg w reference_data current_data s e report_dict"
      and "extract_metrics report_dict = Inr (flag, num, rows_count)"
  shows "fst (main_monitoring_job cfg (w\<lparr>commit_fault := Some err\<rparr>)) = Inr () \<and>
         monitoring_metrics (snd (main_monitoring_job cfg (w\<lparr>commit_fault := Some err\<rparr>))) =
           monitoring_metrics w \<and>
         alert_calls (snd (main_monitoring_job cfg (w\<lparr>commit_fault := Some err\<rparr>))) =
           alert_calls w + (if DRIFT_THRESHOLD cfg < real_of_int num then 1 else 0) \<and>
         alert_calls (snd (main_monitoring_job cfg (w\<lparr>commit_fault := Some err\<rparr>))) =
           alert_calls (snd (main_monitoring_job cfg (w\<lparr>commit_fault := None\<rparr>))) \<and>
         http_posts (snd (main_monitoring_job cfg (w\<lparr>commit_fault := Some err\<rparr>))) =
           http_posts (snd (main_monitoring_job cfg (w\<lparr>commit_fault := None\<rparr>)))"
proof -
  let ?wf = "w\<lparr>commit_fault := Some err\<rparr>" and ?wo = "w\<lparr>commit_fault := None\<rparr>"
  have nf: "non_skipped cfg ?wf reference_data current_data s e report_dict"
    and no: "non_skipped cfg ?wo reference_data current_data s e report_dict"
    using assms(1) by (simp_all add: non_skipped_commit_fault)
  from main_non_skipped[OF nf] obtain F where
    mf: "main_monitoring_job cfg ?wf =
               (fst (process_and_log_metrics cfg report_dict s e F),
                py_print Job_Finished
                  (db_close (snd (process_and_log_metrics cfg report_dict s e F))))"
    and F: "http_posts F = http_posts ?wf" "alert_calls F = alert_calls ?wf"
    by blast
  from main_non_skipped[OF no] obtain G where
    mo: "main_monitoring_job cfg ?wo =
               (fst (process_and_log_metrics cfg report_dict s e G),
                py_print Job_Finished
                  (db_close (snd (process_and_log_metrics cfg report_dict s e G))))"
    and G: "http_posts G = http_posts ?wo" "alert_calls G = alert_calls ?wo"
    by blast
  have c: "alert_calls ?wf = alert_calls w" "alert_calls ?wo = alert_calls w"
    by (simp_all add: alert_calls_def)
  have "fst (main_monitoring_job cfg ?wf) = Inr ()"
    by (rule main_table(2)[OF nf assms(2)])
  moreover have "monitoring_metrics (snd (main_monitoring_job cfg ?wf)) = monitoring_metrics w"
    using main_table(1)[OF nf assms(2)] by simp
  moreover have "alert_calls (snd (main_monitoring_job cfg ?wf)) =
           alert_calls w + (if DRIFT_THRESHOLD cfg < real_of_int num then 1 else 0)"
    using F c by (simp add: mf process_calls[OF assms(2)] alert_calls_simps session_simps)
  moreover have "alert_calls (snd (main_monitoring_job cfg ?wo)) =
           alert_calls w + (if DRIFT_THRESHOLD cfg < real_of_int num then 1 else 0)"
    using G c by (simp add: mo process_calls[OF assms(2)] alert_calls_simps session_simps)
  moreover have "http_posts (snd (main_monitoring_job cfg ?wf)) =
           http_posts (snd (main_monitoring_job cfg ?wo))"
    using F G by (simp add: mf mo process_posts[OF assms(2)] session_simps py_print_simps)
  ultimately show ?thesis by simp
qed

text \<open>The commit raises an \<open>OperationalError\<close>; one feature drifted, the threshold is 0.\<close>

theorem persistence_failure_keeps_alert_witness:
  "non_skipped (alerting_config 0) (example_world [example_log example_end] (example_report 1 1))
     example_reference example_window example_start example_end (example_report 1 1) \<and>
   extract_metrics (example_report 1 1) = Inr (True, 1, 1) \<and>
   fst (main_monitoring_job (alerting_config 0)
     ((example_world [example_log example_end] (example_report 1 1))
        \<lparr>commit_fault := Some OperationalError\<rparr>)) = Inr () \<and>
   monitoring_metrics (snd (main_monitoring_job (alerting_config 0)
     ((example_world [example_log example_end] (example_report 1 1))
        \<lparr>commit_fault := Some OperationalError\<rparr>))) = [] \<and>
   alert_calls (snd (main_monitoring_job (alerting_config 0)
     ((example_world [example_log example_end] (example_report 1 1))
        \<lparr>commit_fault := Some OperationalError\<rparr>))) = 1"
  using persistence_failure_keeps_alert
    [OF example_non_skipped [of 0 "example_report 1 1"] example_extract [of 1 1],
     of OperationalError]
    example_non_skipped [of 0 "example_report 1 1"] example_extract [of 1 1]
  by (simp add: example_world_def alerting_config_def alert_calls_def)

subsection \<open>Alert Dispatcher\<close>

text \<open>
  C3. In a cycle that is not skipped, \<open>send_slack_alert\<close> is called if and only if the
  number of drifted features is strictly greater than \<open>DRIFT_THRESHOLD\<close>, and it is
  then called once; with a webhook configured, that is one request carrying the number
  of drifted features, the score and the bounds of the window.
\<close>

theorem alert_iff_threshold_exceeded:
  assumes "non_skipped cfg w reference_data current_data s e report_dict"
      and "extract_metrics report_dict = Inr (flag, num, rows_count)"
  shows "(alert_calls w < alert_calls (snd (main_monitoring_job cfg w))
            \<longleftrightarrow> DRIFT_THRESHOLD cfg < real_of_int num) \<and>
         alert_calls (snd (main_monitoring_job cfg w)) =
           alert_calls w + (if DRIFT_THRESHOLD cfg < real_of_int num then 1 else 0) \<and>
         http_posts (snd (main_monitoring_job cfg w)) =
           (if DRIFT_THRESHOLD cfg < real_of_int num \<and> SLACK_WEBHOOK_URL cfg \<noteq> []
            then http_posts w @
              [(SLACK_WEBHOOK_URL cfg,
                \<lparr>username = ''Vigil Drift Bot'', icon_emoji = '':warning:'',
                 message = \<lparr>drifted_features = num, drift_score = (if flag then 1 else 0),
                            window_start = s, window_end = e\<rparr>\<rparr>)]
            else http_posts w)"
proof -
  from main_non_skipped[OF assms(1)] obtain W where
    m: "main_monitoring_job cfg w =
               (fst (process_and_log_metrics cfg report_dict s e W),
                py_print Job_Finished
                  (db_close (snd (process_and_log_metrics cfg report_dict s e W))))"
    and W: "http_posts W = http_posts w" "alert_calls W = alert_calls w"
    by blast
  show ?thesis
    using W by (simp add: m process_calls[OF assms(2)] process_posts[OF assms(2)]
        alert_calls_simps session_simps py_print_simps)
qed

text \<open>
  Threshold 2 and exactly 2 drifted features: no alert. The default threshold 0 and
  1 drifted feature: one alert.
\<close>

theorem alert_iff_threshold_exceeded_witness:
  "non_skipped (alerting_config 2) (example_world [example_log example_end] (example_report 2 1))
     example_reference example_window example_start example_end (example_report 2 1) \<and>
   extract_metrics (example_report 2 1) = Inr (True, 2, 1) \<and>
   alert_calls (snd (main_monitoring_job (alerting_config 2)
     (example_world [example_log example_end] (example_report 2 1)))) = 0 \<and>
   http_posts (snd (main_monitoring_job (alerting_config 2)
     (example_world [example_log example_end] (example_report 2 1)))) = [] \<and>
   non_skipped (alerting_config 0) (example_world [example_log example_end] (example_report 1 1))
     example_reference example_window example_start example_end (example_report 1 1) \<and>
   DRIFT_THRESHOLD default_config = 0 \<and>
   alert_calls (snd (main_monitoring_job (alerting_config 0)
     (example_world [example_log example_end] (example_report 1 1)))) = 1 \<and>
   length (http_posts (snd (main_monitoring_job (alerting_config 0)
     (example_world [example_log example_end] (example_report 1 1))))) = 1"
  using alert_iff_threshold_exceeded
    [OF example_non_skipped [of 2 "example_report 2 1"] example_extract [of 2 1]]
    alert_iff_threshold_exceeded
    [OF example_non_skipped [of 0 "example_report 1 1"] example_extract [of 1 1]]
    example_non_skipped [of 2 "example_report 2 1"] example_non_skipped [of 0 "example_report 1 1"]
    example_extract [of 2 1]
  by (simp add: alerting_config_def default_config_def example_world_def alert_calls_def)

text \<open>
  C7. \<open>send_slack_alert\<close> always returns normally, and so does
  \<open>check_for_drift_and_alert\<close>. Without a webhook URL it prints one line and does
  nothing else: no request is made. With a URL it makes exactly one request, whatever
  the outcome of that request (an exception, a status that is not a success, or a
  success), and never touches the metrics. Over a whole job at most one request is
  made and the dispatcher is called at most once; and a cycle that is not skipped
  returns normally whatever the webhook does.
\<close>

theorem send_slack_alert_best_effort:
  "fst (send_slack_alert cfg msg w) = Inr () \<and>
   monitoring_metrics (snd (send_slack_alert cfg msg w)) = monitoring_metrics w \<and>
   (SLACK_WEBHOOK_URL cfg = [] \<longrightarrow>
      snd (send_slack_alert cfg msg w) = py_print Slack_Not_Configured w) \<and>
   (SLACK_WEBHOOK_URL cfg \<noteq> [] \<longrightarrow>
      http_posts (snd (send_slack_alert cfg msg w)) =
        http_posts w @ [(SLACK_WEBHOOK_URL cfg,
          \<lparr>username = ''Vigil Drift Bot'', icon_emoji = '':warning:'', message = msg\<rparr>)]) \<and>
   fst (check_for_drift_and_alert cfg score num s e w) = Inr () \<and>
   length (http_posts (snd (main_monitoring_job cfg w))) \<le> Suc (length (http_posts w)) \<and>
   alert_calls (snd (main_monitoring_job cfg w)) \<le> Suc (alert_calls w) \<and>
   (non_skipped cfg w reference_data current_data s e report_dict \<and>
    extract_metrics report_dict = Inr (flag, n, rows_count) \<longrightarrow>
      fst (main_monitoring_job cfg w) = Inr ())"
proof -
  have "SLACK_WEBHOOK_URL cfg = [] \<Longrightarrow>
      snd (send_slack_alert cfg msg w) = py_print Slack_Not_Configured w"
    by (simp add: send_slack_alert_def)
  moreover have "SLACK_WEBHOOK_URL cfg \<noteq> [] \<Longrightarrow>
      http_posts (snd (send_slack_alert cfg msg w)) =
        http_posts w @ [(SLACK_WEBHOOK_URL cfg,
          \<lparr>username = ''Vigil Drift Bot'', icon_emoji = '':warning:'', message = msg\<rparr>)]"
    by (simp add: send_posts)
  moreover have "non_skipped cfg w reference_data current_data s e report_dict \<Longrightarrow>
    extract_metrics report_dict = Inr (flag, n, rows_count) \<Longrightarrow>
      fst (main_monitoring_job cfg w) = Inr ()"
    by (rule main_table(2))
  ultimately show ?thesis
    using send_returns[of cfg msg w] send_frame(1)[of cfg msg w]
      check_returns[of cfg score num s e w] main_posts_le[of cfg w] main_calls_le[of cfg w]
    by blast
qed

text \<open>
  No webhook URL; a webhook whose request raises; a webhook that answers 500; and a
  whole cycle with the webhook down.
\<close>

theorem send_slack_alert_best_effort_witness:
  "SLACK_WEBHOOK_URL default_config = [] \<and>
   send_slack_alert default_config
     \<lparr>drifted_features = 1, drift_score = 1, window_start = example_start, window_end = example_end\<rparr>
     (example_world [] []) =
     (Inr (), py_print Slack_Not_Configured (example_world [] [])) \<and>
   http_posts (py_print Slack_Not_Configured (example_world [] [])) = [] \<and>
   SLACK_WEBHOOK_URL (alerting_config 0) \<noteq> [] \<and>
   fst (send_slack_alert (alerting_config 0)
     \<lparr>drifted_features = 1, drift_score = 1, window_start = example_start, window_end = example_end\<rparr>
     ((example_world [] [])\<lparr>webhook := (\<lambda>url p. Inl RequestException)\<rparr>)) = Inr () \<and>
   length (http_posts (snd (send_slack_alert (alerting_config 0)
     \<lparr>drifted_features = 1, drift_score = 1, window_start = example_start, window_end = example_end\<rparr>
     ((example_world [] [])\<lparr>webhook := (\<lambda>url p. Inl RequestException)\<rparr>)))) = 1 \<and>
   fst (send_slack_alert (alerting_config 0)
     \<lparr>drifted_features = 1, drift_score = 1, window_start = example_start, window_end = example_end\<rparr>
     ((example_world [] [])\<lparr>webhook := (\<lambda>url p. Inr \<lparr>status_code = 500, body = ''error''\<rparr>)\<rparr>)) = Inr () \<and>
   non_skipped (alerting_config 0)
     ((example_world [example_log example_end] (example_report 1 1))
        \<lparr>commit_fault := None, webhook := (\<lambda>url p. Inl RequestException)\<rparr>)
     example_reference example_window example_start example_end (example_report 1 1) \<and>
   extract_metrics (example_report 1 1) = Inr (True, 1, 1) \<and>
   fst (main_monitoring_job (alerting_config 0)
     ((example_world [example_log example_end] (example_report 1 1))
        \<lparr>commit_fault := None, webhook := (\<lambda>url p. Inl RequestException)\<rparr>)) = Inr ()"
  using send_slack_alert_best_effort
    [where cfg = default_config and w = "example_world [] []"
       and msg = "\<lparr>drifted_features = 1, drift_score = 1, window_start = example_start,
                   window_end = example_end\<rparr>"]
    send_slack_alert_best_effort
    [where cfg = "alerting_config 0"
       and w = "(example_world [] [])\<lparr>webhook := (\<lambda>url p. Inl RequestException)\<rparr>"
       and msg = "\<lparr>drifted_features = 1, drift_score = 1, window_start = example_start,
                   window_end = example_end\<rparr>"]
    send_slack_alert_best_effort
    [where cfg = "alerting_config 0"
       and w = "(example_world [] [])\<lparr>webhook := (\<lambda>url p. Inr \<lparr>status_code = 500, body = ''error''\<rparr>)\<rparr>"
       and msg = "\<lparr>drifted_features = 1, drift_score = 1, window_start = example_start,
                   window_end = example_end\<rparr>"]
    send_slack_alert_best_effort
    [where cfg = "alerting_config 0"
       and w = "(example_world [example_log example_end] (example_report 1 1))
        \<lparr>commit_fault := None, webhook := (\<lambda>url p. Inl RequestException)\<rparr>"
       and reference_data = example_reference and current_data = example_window
       and s = example_start and e = example_end and report_dict = "example_report 1 1"
       and flag = True and n = 1 and rows_count = 1]
    example_non_skipped_faults [where t = 0 and report_dict = "example_report 1 1" and cf = None
          and wh = "\<lambda>url p. Inl RequestException"]
    example_extract [of 1 1]
  by (simp add: default_config_def alerting_config_def example_world_def send_slack_alert_def
      py_print_def prod_eq_iff)

subsection \<open>Drift Detector\<close>





subsection \<open>Job Orchestrator\<close>

lemma fetch_stdout:
  assumes "fst (fetch_data_from_db h w) = Inr (df, s, e)"
  shows "\<exists>l. \<not> is_alert_line l \<and> stdout (snd (fetch_data_from_db h w)) = stdout w @ [Fetching s e, l]"
  using assms
  by (auto simp: fetch_data_from_db_def datetime_now_def Let_def py_print_simps
      split: sum.splits prod.splits if_splits)

lemma main_skipped:
  assumes "files w (REFERENCE_DATA_PATH cfg) = Some (Inr reference_data)"
      and "fst (fetch_data_from_db (BATCH_HOURS cfg) w) = Inr (df, s, e)"
      and "df_empty df"
  shows "fst (main_monitoring_job cfg w) = Inr ()"
    and "monitoring_metrics (snd (main_monitoring_job cfg w)) = monitoring_metrics w"
    and "http_posts (snd (main_monitoring_job cfg w)) = http_posts w"
    and "alert_calls (snd (main_monitoring_job cfg w)) = alert_calls w"
    and "\<exists>l. stdout (snd (main_monitoring_job cfg w)) =
            stdout w @ [Starting_Job, Reference_Loaded (length (rows reference_data)),
                        Fetching s e, l, No_New_Data, Job_Finished]"
proof -
  define w2 where "w2 = SessionLocal (py_print (Reference_Loaded (length (rows reference_data)))
                     (py_print Starting_Job w))"
  define w3 where "w3 = snd (fetch_data_from_db (BATCH_HOURS cfg) w2)"
  have "fst (fetch_data_from_db (BATCH_HOURS cfg) w2) = fst (fetch_data_from_db (BATCH_HOURS cfg) w)"
    by (rule fetch_fst_cong) (simp_all add: w2_def session_simps py_print_simps)
  with assms(2) have f1: "fst (fetch_data_from_db (BATCH_HOURS cfg) w2) = Inr (df, s, e)"
    by simp
  then have f2: "fetch_data_from_db (BATCH_HOURS cfg) w2 = (Inr (df, s, e), w3)"
    by (simp add: w3_def prod_eq_iff)
  have c: "cycle cfg reference_data w2 = (Inr (), py_print No_New_Data w3)"
    using f2 assms(3) by (simp add: cycle_def)
  have m: "main_monitoring_job cfg w = (Inr (), py_print Job_Finished (db_close (py_print No_New_Data w3)))"
    using assms(1) c by (simp add: main_eq w2_def)
  show "fst (main_monitoring_job cfg w) = Inr ()" by (simp add: m)
  show "monitoring_metrics (snd (main_monitoring_job cfg w)) = monitoring_metrics w"
    by (simp add: m w3_def w2_def fetch_frame session_simps py_print_simps)
  show "http_posts (snd (main_monitoring_job cfg w)) = http_posts w"
    by (simp add: m w3_def w2_def fetch_frame session_simps py_print_simps)
  show "alert_calls (snd (main_monitoring_job cfg w)) = alert_calls w"
    by (simp add: m w3_def w2_def fetch_calls session_simps alert_calls_simps)
  from fetch_stdout[OF f1] obtain l where
    "stdout w3 = stdout w2 @ [Fetching s e, l]"
    by (auto simp: w3_def)
  then have "stdout (snd (main_monitoring_job cfg w)) =
            stdout w @ [Starting_Job, Reference_Loaded (length (rows reference_data)),
                        Fetching s e, l, No_New_Data, Job_Finished]"
    by (simp add: m w2_def session_simps py_print_simps)
  then show "\<exists>l. stdout (snd (main_monitoring_job cfg w)) =
            stdout w @ [Starting_Job, Reference_Loaded (length (rows reference_data)),
                        Fetching s e, l, No_New_Data, Job_Finished]"
    by blast
qed

text \<open>
  C1. When the reference loads and the fetch returns a frame of zero rows, the job
  returns normally right after the fetch: the table \<open>monitoring_metrics\<close> and the
  requests made are as before, the dispatcher is not called, and the lines printed are
  those of the start, the load, the fetch and the skip, then the closing line.
\<close>

theorem empty_window_no_side_effects:
  assumes "files w (REFERENCE_DATA_PATH cfg) = Some (Inr reference_data)"
      and "fst (fetch_data_from_db (BATCH_HOURS cfg) w) = Inr (df, s, e)"
      and "rows df = []"
  shows "fst (main_monitoring_job cfg w) = Inr () \<and>
         monitoring_metrics (snd (main_monitoring_job cfg w)) = monitoring_metrics w \<and>
         http_posts (snd (main_monitoring_job cfg w)) = http_posts w \<and>
         alert_calls (snd (main_monitoring_job cfg w)) = alert_calls w \<and>
         (\<exists>l. stdout (snd (main_monitoring_job cfg w)) =
            stdout w @ [Starting_Job, Reference_Loaded (length (rows reference_data)),
                        Fetching s e, l, No_New_Data, Job_Finished])"
proof -
  from assms(3) have "df_empty df" by (simp add: df_empty_def)
  from main_skipped[OF assms(1,2) this] show ?thesis by simp
qed

text \<open>An empty table \<open>prediction_logs\<close>.\<close>

theorem empty_window_no_side_effects_witness:
  "files (example_world [] []) (REFERENCE_DATA_PATH (alerting_config 0)) = Some (Inr example_reference) \<and>
   fst (fetch_data_from_db (BATCH_HOURS (alerting_config 0)) (example_world [] [])) =
     Inr (\<lparr>columns = select_columns, rows = []\<rparr>, example_start, example_end) \<and>
   fst (main_monitoring_job (alerting_config 0) (example_world [] [])) = Inr () \<and>
   monitoring_metrics (snd (main_monitoring_job (alerting_config 0) (example_world [] []))) = [] \<and>
   http_posts (snd (main_monitoring_job (alerting_config 0) (example_world [] []))) = [] \<and>
   alert_calls (snd (main_monitoring_job (alerting_config 0) (example_world [] []))) = 0"
proof -
  have h1: "files (example_world [] []) (REFERENCE_DATA_PATH (alerting_config 0)) =
      Some (Inr example_reference)"
    by (simp add: example_world_def alerting_config_def default_config_def)
  have h2: "fst (fetch_data_from_db (BATCH_HOURS (alerting_config 0)) (example_world [] [])) =
     Inr (\<lparr>columns = select_columns, rows = []\<rparr>, example_start, example_end)"
    by (simp add: fetch_data_from_db_def datetime_now_def Let_def read_sql_def
      example_world_def example_clock_def example_start_def example_end_def
      datetime_sub_hours_def DATETIME_RANGE_US_def py_print_def alerting_config_def
      default_config_def)
  have h3: "rows \<lparr>columns = select_columns, rows = []\<rparr> = []" by simp
  show ?thesis
    using empty_window_no_side_effects [OF h1 h2 h3] h1 h2
    by (simp add: example_world_def alert_calls_def)
qed




end
